theory Spec2Isabelle
  imports Complex_Main "HOL-Library.AList"
begin

section \<open>Dart values on the wire\<close>

text \<open>
  The mobile client (\<^verbatim>\<open>mobile_app/lib/services/api_service.dart\<close>) reads and writes
  \<^verbatim>\<open>Map<String, dynamic>\<close> values, the shape \<^verbatim>\<open>jsonDecode\<close> produces. A \<^verbatim>\<open>dynamic\<close>
  value is one of the constructors below. The type \<open>'d\<close> stands for Dart's \<^verbatim>\<open>double\<close>:
  the classes only store and copy doubles, so the type is left open, and the one
  conversion they use, \<^verbatim>\<open>int.toDouble()\<close>, is the parameter \<open>i2d\<close> of the readers.
  A map literal keeps its keys in the order written, so an object is an association
  list; \<^verbatim>\<open>m[k]\<close> is \<open>lookup m k\<close> and yields \<^verbatim>\<open>null\<close> for an absent key.
\<close>

datatype 'd json =
    JNull
  | JBool bool
  | JInt int
  | JDouble 'd
  | JString string
  | JList "'d json list"
  | JObject "(string \<times> 'd json) list"

type_synonym 'd json_map = "(string \<times> 'd json) list"

definition lookup :: "'d json_map \<Rightarrow> string \<Rightarrow> 'd json" where
  "lookup m k = (case map_of m k of None \<Rightarrow> JNull | Some v \<Rightarrow> v)"

text \<open>
  What Dart throws. \<open>Exception_Network e\<close> is \<^verbatim>\<open>Exception('Network error: $e')\<close>,
  \<open>Exception_FailedToMatch c\<close> is \<^verbatim>\<open>Exception('Failed to match transport: $c')\<close> and
  \<open>Exception_FailedToSubmit\<close> is \<^verbatim>\<open>Exception('Failed to submit request')\<close>.
\<close>

datatype dart_error =
    TypeError
  | NoSuchMethodError
  | FormatException
  | JsonUnsupportedObjectError
  | ClientException
  | Exception_FailedToMatch int
  | Exception_Network dart_error
  | Exception_FailedToSubmit

type_synonym 'a result = "dart_error + 'a"

definition bindE :: "'a result \<Rightarrow> ('a \<Rightarrow> 'b result) \<Rightarrow> 'b result" where
  "bindE r f = (case r of Inl e \<Rightarrow> Inl e | Inr v \<Rightarrow> f v)"

text \<open>
  The implicit downcasts from \<^verbatim>\<open>dynamic\<close> that an assignment to a typed field performs
  (\<^verbatim>\<open>String\<close>, \<^verbatim>\<open>String?\<close>, \<^verbatim>\<open>int?\<close>, \<^verbatim>\<open>bool\<close>, \<^verbatim>\<open>Map<String, dynamic>\<close> and its nullable
  form), and the dynamic calls \<^verbatim>\<open>v.toDouble()\<close> and \<^verbatim>\<open>v?.toDouble()\<close>.
\<close>

fun asString :: "'d json \<Rightarrow> string result" where
  "asString (JString s) = Inr s"
| "asString _ = Inl TypeError"

fun asStringN :: "'d json \<Rightarrow> string option result" where
  "asStringN JNull = Inr None"
| "asStringN (JString s) = Inr (Some s)"
| "asStringN _ = Inl TypeError"

fun asIntN :: "'d json \<Rightarrow> int option result" where
  "asIntN JNull = Inr None"
| "asIntN (JInt n) = Inr (Some n)"
| "asIntN _ = Inl TypeError"

fun asBool :: "'d json \<Rightarrow> bool result" where
  "asBool (JBool b) = Inr b"
| "asBool _ = Inl TypeError"

fun asMap :: "'d json \<Rightarrow> 'd json_map result" where
  "asMap (JObject m) = Inr m"
| "asMap _ = Inl TypeError"

fun asMapN :: "'d json \<Rightarrow> 'd json_map option result" where
  "asMapN JNull = Inr None"
| "asMapN (JObject m) = Inr (Some m)"
| "asMapN _ = Inl TypeError"

fun toDouble :: "(int \<Rightarrow> 'd) \<Rightarrow> 'd json \<Rightarrow> 'd result" where
  "toDouble i2d (JInt n) = Inr (i2d n)"
| "toDouble i2d (JDouble d) = Inr d"
| "toDouble i2d _ = Inl NoSuchMethodError"

fun toDoubleN :: "(int \<Rightarrow> 'd) \<Rightarrow> 'd json \<Rightarrow> 'd option result" where
  "toDoubleN i2d JNull = Inr None"
| "toDoubleN i2d v = bindE (toDouble i2d v) (\<lambda>d. Inr (Some d))"

fun ofStringN :: "string option \<Rightarrow> 'd json" where
  "ofStringN None = JNull"
| "ofStringN (Some s) = JString s"

section \<open>The client's data classes\<close>

record 'd FarmerRequest =
  cropType :: string
  quantityKg :: 'd
  location :: string
  destinationMarket :: string
  preferredDeliveryTime :: "string option"

record 'd TransporterProfile =
  vehicleType :: string
  capacityKg :: 'd
  currentLocation :: string
  availability :: bool
  contactInfo :: string

text \<open>The field \<^verbatim>\<open>id\<close> of the source is \<open>id_field\<close> here (\<open>id\<close> is HOL's identity).\<close>

record 'd TransportJob =
  id_field :: "int option"
  farmerRequest :: "'d FarmerRequest"
  transporter :: "'d TransporterProfile option"
  status :: string
  estimatedArrival :: "string option"
  routeOptimization :: "'d json_map option"
  spoilageRisk :: "'d option"
  createdAt :: "string option"

text \<open>
  The \<^verbatim>\<open>fromJson\<close> factories. Dart evaluates the named arguments in the order written,
  so the first field that fails decides the error.
\<close>

definition FarmerRequest_fromJson :: "(int \<Rightarrow> 'd) \<Rightarrow> 'd json_map \<Rightarrow> 'd FarmerRequest result" where
  "FarmerRequest_fromJson i2d json =
     bindE (asString (lookup json ''crop_type'')) (\<lambda>c.
     bindE (toDouble i2d (lookup json ''quantity_kg'')) (\<lambda>q.
     bindE (asString (lookup json ''location'')) (\<lambda>l.
     bindE (asString (lookup json ''destination_market'')) (\<lambda>m.
     bindE (asStringN (lookup json ''preferred_delivery_time'')) (\<lambda>p.
     Inr \<lparr>cropType = c, quantityKg = q, location = l, destinationMarket = m,
          preferredDeliveryTime = p\<rparr>)))))"

definition FarmerRequest_toJson :: "'d FarmerRequest \<Rightarrow> 'd json_map" where
  "FarmerRequest_toJson r =
     [(''crop_type'', JString (cropType r)),
      (''quantity_kg'', JDouble (quantityKg r)),
      (''location'', JString (location r)),
      (''destination_market'', JString (destinationMarket r)),
      (''preferred_delivery_time'', ofStringN (preferredDeliveryTime r))]"

definition TransporterProfile_fromJson ::
  "(int \<Rightarrow> 'd) \<Rightarrow> 'd json_map \<Rightarrow> 'd TransporterProfile result" where
  "TransporterProfile_fromJson i2d json =
     bindE (asString (lookup json ''vehicle_type'')) (\<lambda>v.
     bindE (toDouble i2d (lookup json ''capacity_kg'')) (\<lambda>c.
     bindE (asString (lookup json ''current_location'')) (\<lambda>l.
     bindE (asBool (lookup json ''availability'')) (\<lambda>a.
     bindE (asString (lookup json ''contact_info'')) (\<lambda>i.
     Inr \<lparr>vehicleType = v, capacityKg = c, currentLocation = l, availability = a,
          contactInfo = i\<rparr>)))))"

definition TransporterProfile_toJson :: "'d TransporterProfile \<Rightarrow> 'd json_map" where
  "TransporterProfile_toJson p =
     [(''vehicle_type'', JString (vehicleType p)),
      (''capacity_kg'', JDouble (capacityKg p)),
      (''current_location'', JString (currentLocation p)),
      (''availability'', JBool (availability p)),
      (''contact_info'', JString (contactInfo p))]"

text \<open>
  \<^verbatim>\<open>json['transporter'] != null ? TransporterProfile.fromJson(json['transporter']) : null\<close>:
  a value that is neither \<^verbatim>\<open>null\<close> nor a map fails the cast of the argument.
\<close>

definition transporter_fromJson ::
  "(int \<Rightarrow> 'd) \<Rightarrow> 'd json \<Rightarrow> 'd TransporterProfile option result" where
  "transporter_fromJson i2d v =
     (if v \<noteq> JNull
      then bindE (asMap v) (\<lambda>m.
           bindE (TransporterProfile_fromJson i2d m) (\<lambda>p. Inr (Some p)))
      else Inr None)"

definition TransportJob_fromJson :: "(int \<Rightarrow> 'd) \<Rightarrow> 'd json_map \<Rightarrow> 'd TransportJob result" where
  "TransportJob_fromJson i2d json =
     bindE (asIntN (lookup json ''id'')) (\<lambda>i.
     bindE (bindE (asMap (lookup json ''farmer_request'')) (FarmerRequest_fromJson i2d)) (\<lambda>f.
     bindE (transporter_fromJson i2d (lookup json ''transporter'')) (\<lambda>t.
     bindE (asString (lookup json ''status'')) (\<lambda>s.
     bindE (asStringN (lookup json ''estimated_arrival'')) (\<lambda>e.
     bindE (asMapN (lookup json ''route_optimization'')) (\<lambda>r.
     bindE (toDoubleN i2d (lookup json ''spoilage_risk'')) (\<lambda>k.
     bindE (asStringN (lookup json ''created_at'')) (\<lambda>c.
     Inr \<lparr>id_field = i, farmerRequest = f, transporter = t, status = s,
          estimatedArrival = e, routeOptimization = r, spoilageRisk = k,
          createdAt = c\<rparr>))))))))"

definition TransportJob_toJson :: "'d TransportJob \<Rightarrow> 'd json_map" where
  "TransportJob_toJson j =
     [(''id'', (case id_field j of None \<Rightarrow> JNull | Some n \<Rightarrow> JInt n)),
      (''farmer_request'', JObject (FarmerRequest_toJson (farmerRequest j))),
      (''transporter'',
         (case transporter j of None \<Rightarrow> JNull
          | Some p \<Rightarrow> JObject (TransporterProfile_toJson p))),
      (''status'', JString (status j)),
      (''estimated_arrival'', ofStringN (estimatedArrival j)),
      (''route_optimization'',
         (case routeOptimization j of None \<Rightarrow> JNull | Some m \<Rightarrow> JObject m)),
      (''spoilage_risk'', (case spoilageRisk j of None \<Rightarrow> JNull | Some d \<Rightarrow> JDouble d)),
      (''created_at'', ofStringN (createdAt j))]"

section \<open>The transporter screen\<close>

text \<open>
  \<^verbatim>\<open>_TransporterScreenState\<close>. What \<^verbatim>\<open>ScaffoldMessenger\<close> was asked to show is kept as
  a list, oldest first. \<^verbatim>\<open>_availableJobs\<close> is declared \<^verbatim>\<open>List<dynamic>\<close>; the only
  values ever stored in it are the map literals of \<^verbatim>\<open>_loadAvailableJobs\<close>, so its
  elements are maps here.
\<close>

datatype snack_bar =
    AcceptedJob int
  | NowAvailable
  | NowUnavailable
  | RequestSubmitted
  | ErrorSnack dart_error

record 'd transporter_screen =
  availableJobs :: "'d json_map list"
  isLoading :: bool
  isAvailable :: bool
  transporterSnackBars :: "snack_bar list"

text \<open>
  \<^verbatim>\<open>v == n\<close> for a \<^verbatim>\<open>dynamic\<close> \<open>v\<close> and an \<^verbatim>\<open>int\<close> \<open>n\<close>: numbers compare by value (a
  double with the converted integer), any other value differs from a number.
\<close>

fun equalsInt :: "(int \<Rightarrow> 'd) \<Rightarrow> 'd json \<Rightarrow> int \<Rightarrow> bool" where
  "equalsInt i2d (JInt m) n = (m = n)"
| "equalsInt i2d (JDouble d) n = (d = i2d n)"
| "equalsInt i2d _ n = False"

text \<open>\<^verbatim>\<open>List.removeWhere\<close>: one pass over the list, dropping the elements the test holds of.\<close>

fun removeWhere :: "('a \<Rightarrow> bool) \<Rightarrow> 'a list \<Rightarrow> 'a list" where
  "removeWhere test [] = []"
| "removeWhere test (x # xs) =
     (if test x then removeWhere test xs else x # removeWhere test xs)"

definition hasId :: "(int \<Rightarrow> 'd) \<Rightarrow> int \<Rightarrow> 'd json_map \<Rightarrow> bool" where
  "hasId i2d jobId job = equalsInt i2d (lookup job ''id'') jobId"

definition acceptJob :: "(int \<Rightarrow> 'd) \<Rightarrow> int \<Rightarrow> 'd transporter_screen \<Rightarrow> 'd transporter_screen" where
  "acceptJob i2d jobId s =
     s\<lparr>transporterSnackBars := transporterSnackBars s @ [AcceptedJob jobId],
       availableJobs := removeWhere (hasId i2d jobId) (availableJobs s)\<rparr>"

definition toggleAvailability :: "'d transporter_screen \<Rightarrow> 'd transporter_screen" where
  "toggleAvailability s =
     (let s' = s\<lparr>isAvailable := \<not> isAvailable s\<rparr>
      in s'\<lparr>transporterSnackBars := transporterSnackBars s' @
               [if isAvailable s' then NowAvailable else NowUnavailable]\<rparr>)"

text \<open>The mock list \<^verbatim>\<open>_loadAvailableJobs\<close> stores once its two-second delay is over.\<close>

definition mockAvailableJobs :: "real json_map list" where
  "mockAvailableJobs =
     [[(''id'', JInt 1), (''crop_type'', JString ''tomatoes''), (''quantity_kg'', JDouble 500),
       (''pickup_location'', JString ''Mashonaland East''),
       (''destination'', JString ''Mbare Musika''),
       (''distance_km'', JDouble 45), (''estimated_fare'', JDouble 120)],
      [(''id'', JInt 2), (''crop_type'', JString ''maize''), (''quantity_kg'', JDouble 1000),
       (''pickup_location'', JString ''Mashonaland Central''),
       (''destination'', JString ''Sakubva Market''),
       (''distance_km'', JDouble 85), (''estimated_fare'', JDouble 200)]]"

definition loadAvailableJobs :: "real transporter_screen \<Rightarrow> real transporter_screen" where
  "loadAvailableJobs s = s\<lparr>availableJobs := mockAvailableJobs, isLoading := False\<rparr>"

section \<open>The farmer screen\<close>

text \<open>
  What the screen takes from outside the repository is a parameter: \<open>tryParse\<close> is
  \<^verbatim>\<open>double.tryParse\<close> (\<^verbatim>\<open>double.parse\<close> throws \<^verbatim>\<open>FormatException\<close> exactly where it
  gives \<^verbatim>\<open>null\<close>), \<open>jsonEncode\<close> and \<open>jsonDecode\<close> are those of \<^verbatim>\<open>dart:convert\<close> with
  \<open>None\<close> where they throw, \<open>post\<close> is \<^verbatim>\<open>http.Client.post\<close> on a URL and a body,
  answering a status code and a response body, or \<open>None\<close> where it throws, and
  \<open>int_toDouble\<close> is \<^verbatim>\<open>int.toDouble\<close>.
\<close>

record 'd dart_env =
  tryParse :: "string \<Rightarrow> 'd option"
  jsonEncode :: "'d json \<Rightarrow> string option"
  jsonDecode :: "string \<Rightarrow> 'd json option"
  post :: "string \<Rightarrow> string \<Rightarrow> (int \<times> string) option"
  int_toDouble :: "int \<Rightarrow> 'd"

text \<open>A call of \<^verbatim>\<open>client.post\<close>: the URL and the body handed to it.\<close>

type_synonym http_call = "string \<times> string"

definition baseUrl :: string where
  "baseUrl = ''http://localhost:8000/api/v1''"

text \<open>
  \<^verbatim>\<open>ApiService.matchTransport\<close>, with the calls of \<^verbatim>\<open>client.post\<close> it makes. Everything
  thrown inside its \<^verbatim>\<open>try\<close>, its own \<^verbatim>\<open>Exception('Failed to match transport ...')\<close>
  included, is caught and thrown again as \<^verbatim>\<open>Exception('Network error: ...')\<close>.
\<close>

definition matchTransport ::
  "'d dart_env \<Rightarrow> 'd json_map \<Rightarrow> http_call list \<times> 'd json_map result" where
  "matchTransport env request =
     (case jsonEncode env (JObject request) of
        None \<Rightarrow> ([], Inl (Exception_Network JsonUnsupportedObjectError))
      | Some b \<Rightarrow>
          (let u = baseUrl @ ''/mcp/match-transport'' in
           ([(u, b)],
            (case post env u b of
               None \<Rightarrow> Inl (Exception_Network ClientException)
             | Some (statusCode, responseBody) \<Rightarrow>
                 if statusCode = 200
                 then (case jsonDecode env responseBody of
                         None \<Rightarrow> Inl (Exception_Network FormatException)
                       | Some v \<Rightarrow>
                           (case asMap v of
                              Inl e \<Rightarrow> Inl (Exception_Network e)
                            | Inr m \<Rightarrow> Inr m))
                 else Inl (Exception_Network (Exception_FailedToMatch statusCode))))))"

text \<open>
  \<^verbatim>\<open>_FarmerScreenState\<close>: the selected crop, the text of the four controllers, the
  loading flag, the current job, and what \<^verbatim>\<open>ScaffoldMessenger\<close> was asked to show.
\<close>

record 'd farmer_screen =
  selectedCrop :: "string option"
  cropController :: string
  quantityController :: string
  locationController :: string
  marketController :: string
  isLoading :: bool
  currentJob :: "'d TransportJob option"
  farmerSnackBars :: "snack_bar list"

definition cropTypes :: "string list" where
  "cropTypes = [''tomatoes'', ''maize'', ''beans'', ''potatoes'', ''cabbage'', ''other'']"

definition initialState :: "'d farmer_screen" where
  "initialState =
     \<lparr>selectedCrop = None, cropController = [], quantityController = [],
      locationController = [], marketController = [], isLoading = False,
      currentJob = None, farmerSnackBars = []\<rparr>"

text \<open>The validators of the four form fields: \<open>None\<close> is \<^verbatim>\<open>null\<close>, the field is valid.\<close>

definition cropValidator :: "string option \<Rightarrow> string option" where
  "cropValidator v =
     (if v = None \<or> v = Some [] then Some ''Please select a crop type'' else None)"

definition quantityValidator :: "(string \<Rightarrow> 'd option) \<Rightarrow> string option \<Rightarrow> string option" where
  "quantityValidator parse v =
     (case v of
        None \<Rightarrow> Some ''Please enter quantity''
      | Some t \<Rightarrow>
          if t = [] then Some ''Please enter quantity''
          else if parse t = None then Some ''Please enter a valid number''
          else None)"

definition locationValidator :: "string option \<Rightarrow> string option" where
  "locationValidator v =
     (if v = None \<or> v = Some [] then Some ''Please enter pickup location'' else None)"

definition marketValidator :: "string option \<Rightarrow> string option" where
  "marketValidator v =
     (if v = None \<or> v = Some [] then Some ''Please enter destination market'' else None)"

text \<open>
  \<^verbatim>\<open>_formKey.currentState!.validate()\<close>: every field's validator answers \<^verbatim>\<open>null\<close>.
  The value of the dropdown field is \<open>selectedCrop\<close>, that of a text field is the text
  of its controller.
\<close>

definition validate :: "(string \<Rightarrow> 'd option) \<Rightarrow> 'd farmer_screen \<Rightarrow> bool" where
  "validate parse s =
     (cropValidator (selectedCrop s) = None \<and>
      quantityValidator parse (Some (quantityController s)) = None \<and>
      locationValidator (Some (locationController s)) = None \<and>
      marketValidator (Some (marketController s)) = None)"

text \<open>The map \<^verbatim>\<open>request\<close> of \<^verbatim>\<open>_submitRequest\<close>; \<^verbatim>\<open>double.parse\<close> may throw.\<close>

definition buildRequest :: "(string \<Rightarrow> 'd option) \<Rightarrow> 'd farmer_screen \<Rightarrow> 'd json_map result" where
  "buildRequest parse s =
     (case parse (quantityController s) of
        None \<Rightarrow> Inl FormatException
      | Some q \<Rightarrow>
          Inr [(''crop_type'', ofStringN (selectedCrop s)),
               (''quantity_kg'', JDouble q),
               (''location'', JString (locationController s)),
               (''destination_market'', JString (marketController s))])"

text \<open>The body of the \<^verbatim>\<open>try\<close> in \<^verbatim>\<open>_submitRequest\<close>: the calls made, and the job or what was thrown.\<close>

definition submitTry :: "'d dart_env \<Rightarrow> 'd farmer_screen \<Rightarrow> http_call list \<times> 'd TransportJob result" where
  "submitTry env s =
     (case buildRequest (tryParse env) s of
        Inl e \<Rightarrow> ([], Inl e)
      | Inr request \<Rightarrow>
          (let (calls, r) = matchTransport env request
           in (calls,
               bindE r (\<lambda>response.
               bindE (asBool (lookup response ''success'')) (\<lambda>success.
               if success
               then bindE (asMap (lookup response ''transport_job''))
                      (TransportJob_fromJson (int_toDouble env))
               else Inl Exception_FailedToSubmit)))))"

text \<open>
  \<^verbatim>\<open>_submitRequest\<close>, run to its end: the new state and the calls of \<^verbatim>\<open>client.post\<close>.
  A form that does not validate leaves everything as it is.
\<close>

definition submitRequest :: "'d dart_env \<Rightarrow> 'd farmer_screen \<Rightarrow> 'd farmer_screen \<times> http_call list" where
  "submitRequest env s =
     (if validate (tryParse env) s
      then (let s1 = s\<lparr>isLoading := True\<rparr>;
                (calls, r) = submitTry env s1;
                s2 = (case r of
                        Inr job \<Rightarrow>
                          s1\<lparr>currentJob := Some job,
                             farmerSnackBars := farmerSnackBars s1 @ [RequestSubmitted]\<rparr>
                      | Inl e \<Rightarrow>
                          s1\<lparr>farmerSnackBars := farmerSnackBars s1 @ [ErrorSnack e]\<rparr>)
            in (s2\<lparr>isLoading := False\<rparr>, calls))
      else (s, []))"

definition resetForm :: "'d farmer_screen \<Rightarrow> 'd farmer_screen" where
  "resetForm s =
     s\<lparr>cropController := [], quantityController := [], locationController := [],
       marketController := [], selectedCrop := None, currentJob := None\<rparr>"

text \<open>The \<^verbatim>\<open>onChanged\<close> handler of the crop dropdown.\<close>

definition cropChanged :: "string option \<Rightarrow> 'd farmer_screen \<Rightarrow> 'd farmer_screen" where
  "cropChanged newValue s = s\<lparr>selectedCrop := newValue\<rparr>"

text \<open>
  The states the screen can be in. The dropdown offers the entries of \<open>cropTypes\<close> and
  hands the chosen one to \<open>cropChanged\<close>; the user types into the three text fields;
  the two buttons run \<open>submitRequest\<close> (against any server) and \<open>resetForm\<close>.
\<close>

inductive reachable :: "'d farmer_screen \<Rightarrow> bool" where
  start: "reachable initialState"
| crop: "reachable s \<Longrightarrow> c \<in> set cropTypes \<Longrightarrow> reachable (cropChanged (Some c) s)"
| quantity: "reachable s \<Longrightarrow> reachable (s\<lparr>quantityController := t\<rparr>)"
| pickup: "reachable s \<Longrightarrow> reachable (s\<lparr>locationController := t\<rparr>)"
| market: "reachable s \<Longrightarrow> reachable (s\<lparr>marketController := t\<rparr>)"
| submit: "reachable s \<Longrightarrow> reachable (fst (submitRequest env s))"
| reset: "reachable s \<Longrightarrow> reachable (resetForm s)"

text \<open>
  \<^verbatim>\<open>double.tryParse\<close> on the strings made of an optional sign and decimal digits, where
  the double is the integer written. It is the function of \<^verbatim>\<open>dart:core\<close> on these
  strings only (it answers \<open>None\<close> on every other string, fractions and exponents
  included), and serves for concrete examples.
\<close>

definition digitValue :: "char \<Rightarrow> nat option" where
  "digitValue c =
     (let code = (of_char c :: nat)
      in if 48 \<le> code \<and> code \<le> 57 then Some (code - 48) else None)"

fun digitsValue :: "nat \<Rightarrow> string \<Rightarrow> nat option" where
  "digitsValue acc [] = Some acc"
| "digitsValue acc (c # cs) =
     (case digitValue c of None \<Rightarrow> None | Some d \<Rightarrow> digitsValue (10 * acc + d) cs)"

definition tryParse_integral :: "string \<Rightarrow> real option" where
  "tryParse_integral t =
     (case t of
        [] \<Rightarrow> None
      | c # cs \<Rightarrow>
          if c = CHR ''-'' then
            (if cs = [] then None else map_option (\<lambda>n. - real n) (digitsValue 0 cs))
          else if c = CHR ''+'' then
            (if cs = [] then None else map_option real (digitsValue 0 cs))
          else map_option real (digitsValue 0 t))"

section \<open>The admin dashboard's job list\<close>




















section \<open>The matching engine\<close>

text \<open>
  Modelled from the spec: a transporter as the Matching Engine of section 4.1 sees
  it. The engine belongs to the backend and is not in the repository. An entry of
  the pool is a \<open>TransporterProfile\<close> with its rating and the age of its location;
  the pool is listed in registration order.
\<close>

record registered =
  profile :: "real TransporterProfile"
  rating :: real
  locationAge :: nat

datatype match_error = NoMatchFound

text \<open>
  Modelled from the spec: the filter of section 4.1. A transporter passes when it is
  available, its capacity is at least the requested quantity, and its location is
  not older than the bound.
\<close>

definition eligible :: "nat \<Rightarrow> real FarmerRequest \<Rightarrow> registered \<Rightarrow> bool" where
  "eligible bound request t =
     (availability (profile t) = True \<and>
      capacityKg (profile t) \<ge> quantityKg request \<and>
      locationAge t \<le> bound)"

text \<open>
  Modelled from the spec: the selection of section 4.1, the candidate with the
  highest score, the earliest registered on a tie.
\<close>

fun highest :: "('a \<Rightarrow> real) \<Rightarrow> 'a \<Rightarrow> 'a list \<Rightarrow> 'a" where
  "highest score best [] = best"
| "highest score best (c # cs) =
     (if score best < score c then highest score c cs else highest score best cs)"

text \<open>
  Modelled from the spec: \<open>match\<close> of section 4.1, filter, score and select, with
  \<open>NoMatchFound\<close> when no transporter passes the filter. The score (the weights of
  distance, rating and capacity fit) is a parameter, as the spec leaves it open. The
  reservation made on success is not part of this model.
\<close>

definition match ::
  "(real FarmerRequest \<Rightarrow> registered \<Rightarrow> real) \<Rightarrow> nat \<Rightarrow> registered list \<Rightarrow>
   real FarmerRequest \<Rightarrow> match_error + registered" where
  "match score bound pool request =
     (case filter (eligible bound request) pool of
        [] \<Rightarrow> Inl NoMatchFound
      | c # cs \<Rightarrow> Inr (highest (score request) c cs))"

section \<open>Serialization round trips\<close>

lemma bindE_Inr [simp]: "bindE (Inr v) f = f v"
  by (simp add: bindE_def)

lemma bindE_Inl [simp]: "bindE (Inl e) f = Inl e"
  by (simp add: bindE_def)

lemma asStringN_ofStringN [simp]: "asStringN (ofStringN s) = Inr s"
  by (cases s) simp_all

lemma FarmerRequest_roundtrip:
  "FarmerRequest_fromJson i2d (FarmerRequest_toJson r) = Inr r"
  by (simp add: FarmerRequest_fromJson_def FarmerRequest_toJson_def lookup_def)

lemma TransporterProfile_roundtrip:
  "TransporterProfile_fromJson i2d (TransporterProfile_toJson p) = Inr p"
  by (simp add: TransporterProfile_fromJson_def TransporterProfile_toJson_def lookup_def)

text \<open>
  C1. Serializing any \<open>TransportJob\<close> with \<open>toJson\<close> and reading the map back with
  \<open>fromJson\<close> succeeds and gives the job back, equal in every field, the nested
  \<open>FarmerRequest\<close> and the \<open>TransporterProfile\<close> (when there is one) included.
\<close>

theorem TransportJob_roundtrip:
  "TransportJob_fromJson i2d (TransportJob_toJson j) = Inr j"
  by (simp add: TransportJob_fromJson_def TransportJob_toJson_def lookup_def
      transporter_fromJson_def FarmerRequest_roundtrip TransporterProfile_roundtrip
      split: option.split)

section \<open>The wire form of a job\<close>

lemma lookup_delete:
  "lookup (AList.delete k m) k' = (if k' = k then JNull else lookup m k')"
  by (simp add: lookup_def delete_conv')

lemma lookup_absent: "k \<notin> fst ` set m \<Longrightarrow> lookup m k = JNull"
  by (simp add: lookup_def map_of_eq_None_iff [THEN iffD2])

lemma TransportJob_fromJson_Inr_iff:
  "TransportJob_fromJson i2d w = Inr j \<longleftrightarrow>
     asIntN (lookup w ''id'') = Inr (id_field j) \<and>
     bindE (asMap (lookup w ''farmer_request'')) (FarmerRequest_fromJson i2d) =
       Inr (farmerRequest j) \<and>
     transporter_fromJson i2d (lookup w ''transporter'') = Inr (transporter j) \<and>
     asString (lookup w ''status'') = Inr (status j) \<and>
     asStringN (lookup w ''estimated_arrival'') = Inr (estimatedArrival j) \<and>
     asMapN (lookup w ''route_optimization'') = Inr (routeOptimization j) \<and>
     toDoubleN i2d (lookup w ''spoilage_risk'') = Inr (spoilageRisk j) \<and>
     asStringN (lookup w ''created_at'') = Inr (createdAt j)"
  by (cases j) (auto simp: TransportJob_fromJson_def bindE_def split: sum.splits)

lemma TransportJob_toJson_keys:
  "map fst (TransportJob_toJson j) =
     [''id'', ''farmer_request'', ''transporter'', ''status'', ''estimated_arrival'',
      ''route_optimization'', ''spoilage_risk'', ''created_at'']"
  by (simp add: TransportJob_toJson_def)

lemma TransportJob_optionals_absent:
  assumes "bindE (asMap (lookup w ''farmer_request'')) (FarmerRequest_fromJson i2d) = Inr f"
    and "asString (lookup w ''status'') = Inr s"
    and "asIntN (lookup w ''id'') = Inr i"
    and "asStringN (lookup w ''created_at'') = Inr c"
    and "''transporter'' \<notin> fst ` set w" and "''estimated_arrival'' \<notin> fst ` set w"
    and "''route_optimization'' \<notin> fst ` set w" and "''spoilage_risk'' \<notin> fst ` set w"
  shows "TransportJob_fromJson i2d w =
     Inr \<lparr>id_field = i, farmerRequest = f, transporter = None, status = s,
          estimatedArrival = None, routeOptimization = None, spoilageRisk = None,
          createdAt = c\<rparr>"
  using assms by (simp add: TransportJob_fromJson_Inr_iff lookup_absent transporter_fromJson_def)

text \<open>
  C2. The map \<open>toJson\<close> writes has exactly the keys \<open>id\<close>, \<open>farmer_request\<close>,
  \<open>transporter\<close>, \<open>status\<close>, \<open>estimated_arrival\<close>, \<open>route_optimization\<close>,
  \<open>spoilage_risk\<close>, \<open>created_at\<close>. Absence of an optional field is never an error:
  whenever \<open>fromJson\<close> accepts a wire object, it also accepts the object with
  \<open>transporter\<close>, \<open>estimated_arrival\<close>, \<open>route_optimization\<close> or \<open>spoilage_risk\<close> taken
  out, and the job it returns differs only in that this field is \<open>None\<close>; and a wire
  object whose \<open>farmer_request\<close>, \<open>status\<close>, \<open>id\<close> and \<open>created_at\<close> are readable and
  which has none of the four optional keys is read with all four fields \<open>None\<close>.
\<close>

theorem TransportJob_wire_form:
  "map fst (TransportJob_toJson j) =
     [''id'', ''farmer_request'', ''transporter'', ''status'', ''estimated_arrival'',
      ''route_optimization'', ''spoilage_risk'', ''created_at''] \<and>
   (TransportJob_fromJson i2d w = Inr j' \<longrightarrow>
      TransportJob_fromJson i2d (AList.delete ''transporter'' w) =
        Inr (j'\<lparr>transporter := None\<rparr>) \<and>
      TransportJob_fromJson i2d (AList.delete ''estimated_arrival'' w) =
        Inr (j'\<lparr>estimatedArrival := None\<rparr>) \<and>
      TransportJob_fromJson i2d (AList.delete ''route_optimization'' w) =
        Inr (j'\<lparr>routeOptimization := None\<rparr>) \<and>
      TransportJob_fromJson i2d (AList.delete ''spoilage_risk'' w) =
        Inr (j'\<lparr>spoilageRisk := None\<rparr>)) \<and>
   (bindE (asMap (lookup v ''farmer_request'')) (FarmerRequest_fromJson i2d) = Inr f \<and>
    asString (lookup v ''status'') = Inr s \<and>
    asIntN (lookup v ''id'') = Inr i \<and>
    asStringN (lookup v ''created_at'') = Inr c \<and>
    ''transporter'' \<notin> fst ` set v \<and> ''estimated_arrival'' \<notin> fst ` set v \<and>
    ''route_optimization'' \<notin> fst ` set v \<and> ''spoilage_risk'' \<notin> fst ` set v \<longrightarrow>
      TransportJob_fromJson i2d v =
        Inr \<lparr>id_field = i, farmerRequest = f, transporter = None, status = s,
             estimatedArrival = None, routeOptimization = None, spoilageRisk = None,
             createdAt = c\<rparr>)"
proof (intro conjI impI)
  show "map fst (TransportJob_toJson j) =
     [''id'', ''farmer_request'', ''transporter'', ''status'', ''estimated_arrival'',
      ''route_optimization'', ''spoilage_risk'', ''created_at'']"
    by (rule TransportJob_toJson_keys)
next
  assume "TransportJob_fromJson i2d w = Inr j'"
  then show "TransportJob_fromJson i2d (AList.delete ''transporter'' w) =
      Inr (j'\<lparr>transporter := None\<rparr>)"
    by (simp add: TransportJob_fromJson_Inr_iff lookup_delete transporter_fromJson_def)
next
  assume "TransportJob_fromJson i2d w = Inr j'"
  then show "TransportJob_fromJson i2d (AList.delete ''estimated_arrival'' w) =
      Inr (j'\<lparr>estimatedArrival := None\<rparr>)"
    by (simp add: TransportJob_fromJson_Inr_iff lookup_delete)
next
  assume "TransportJob_fromJson i2d w = Inr j'"
  then show "TransportJob_fromJson i2d (AList.delete ''route_optimization'' w) =
      Inr (j'\<lparr>routeOptimization := None\<rparr>)"
    by (simp add: TransportJob_fromJson_Inr_iff lookup_delete)
next
  assume "TransportJob_fromJson i2d w = Inr j'"
  then show "TransportJob_fromJson i2d (AList.delete ''spoilage_risk'' w) =
      Inr (j'\<lparr>spoilageRisk := None\<rparr>)"
    by (simp add: TransportJob_fromJson_Inr_iff lookup_delete)
next
  assume "bindE (asMap (lookup v ''farmer_request'')) (FarmerRequest_fromJson i2d) = Inr f \<and>
    asString (lookup v ''status'') = Inr s \<and>
    asIntN (lookup v ''id'') = Inr i \<and>
    asStringN (lookup v ''created_at'') = Inr c \<and>
    ''transporter'' \<notin> fst ` set v \<and> ''estimated_arrival'' \<notin> fst ` set v \<and>
    ''route_optimization'' \<notin> fst ` set v \<and> ''spoilage_risk'' \<notin> fst ` set v"
  then show "TransportJob_fromJson i2d v =
        Inr \<lparr>id_field = i, farmerRequest = f, transporter = None, status = s,
             estimatedArrival = None, routeOptimization = None, spoilageRisk = None,
             createdAt = c\<rparr>"
    by (simp add: TransportJob_optionals_absent)
qed

theorem TransportJob_wire_form_witness:
  "TransportJob_fromJson real_of_int
     [(''id'', JInt 7),
      (''farmer_request'', JObject [(''crop_type'', JString ''tomatoes''),
         (''quantity_kg'', JInt 500), (''location'', JString ''Mashonaland East''),
         (''destination_market'', JString ''Mbare Musika'')]),
      (''status'', JString ''requested''),
      (''spoilage_risk'', JDouble (1 / 4))] =
     Inr \<lparr>id_field = Some 7,
          farmerRequest = \<lparr>cropType = ''tomatoes'', quantityKg = 500,
            location = ''Mashonaland East'', destinationMarket = ''Mbare Musika'',
            preferredDeliveryTime = None\<rparr>,
          transporter = None, status = ''requested'', estimatedArrival = None,
          routeOptimization = None, spoilageRisk = Some (1 / 4), createdAt = None\<rparr> \<and>
   TransportJob_fromJson real_of_int
     [(''id'', JInt 7),
      (''farmer_request'', JObject [(''crop_type'', JString ''tomatoes''),
         (''quantity_kg'', JInt 500), (''location'', JString ''Mashonaland East''),
         (''destination_market'', JString ''Mbare Musika'')]),
      (''status'', JString ''requested'')] =
     Inr \<lparr>id_field = Some 7,
          farmerRequest = \<lparr>cropType = ''tomatoes'', quantityKg = 500,
            location = ''Mashonaland East'', destinationMarket = ''Mbare Musika'',
            preferredDeliveryTime = None\<rparr>,
          transporter = None, status = ''requested'', estimatedArrival = None,
          routeOptimization = None, spoilageRisk = None, createdAt = None\<rparr>"
proof -
  let ?fr = "[(''crop_type'', JString ''tomatoes''),
         (''quantity_kg'', JInt 500), (''location'', JString ''Mashonaland East''),
         (''destination_market'', JString ''Mbare Musika'')] :: real json_map"
  let ?f = "\<lparr>cropType = ''tomatoes'', quantityKg = 500 :: real,
            location = ''Mashonaland East'', destinationMarket = ''Mbare Musika'',
            preferredDeliveryTime = None\<rparr>"
  let ?v = "[(''id'', JInt 7), (''farmer_request'', JObject ?fr),
      (''status'', JString ''requested'')]"
  let ?w = "?v @ [(''spoilage_risk'', JDouble (1 / 4))]"
  let ?j = "\<lparr>id_field = Some 7, farmerRequest = ?f,
          transporter = None, status = ''requested'', estimatedArrival = None,
          routeOptimization = None, spoilageRisk = Some (1 / 4 :: real), createdAt = None\<rparr>"
  have f: "bindE (asMap (lookup ?v ''farmer_request'')) (FarmerRequest_fromJson real_of_int) = Inr ?f"
    by (simp add: lookup_def FarmerRequest_fromJson_def)
  have w: "TransportJob_fromJson real_of_int ?w = Inr ?j"
    using f by (simp add: TransportJob_fromJson_Inr_iff lookup_def transporter_fromJson_def)
  have v: "bindE (asMap (lookup ?v ''farmer_request'')) (FarmerRequest_fromJson real_of_int) = Inr ?f \<and>
    asString (lookup ?v ''status'') = Inr ''requested'' \<and>
    asIntN (lookup ?v ''id'') = Inr (Some 7) \<and>
    asStringN (lookup ?v ''created_at'') = Inr None \<and>
    ''transporter'' \<notin> fst ` set ?v \<and> ''estimated_arrival'' \<notin> fst ` set ?v \<and>
    ''route_optimization'' \<notin> fst ` set ?v \<and> ''spoilage_risk'' \<notin> fst ` set ?v"
    using f by (simp add: lookup_def)
  from TransportJob_wire_form [of ?j real_of_int ?w ?j ?v ?f "''requested''" "Some 7" None] w v
  show ?thesis by simp
qed

section \<open>The transporter profile\<close>

text \<open>
  C7 (as the code has it). A \<open>TransporterProfile\<close> carries a vehicle type, a capacity
  in kilograms, a current location, an availability flag and a contact reference:
  its wire form has exactly these five keys, and all five fields survive the round
  trip through \<open>toJson\<close> and \<open>fromJson\<close>. The class has no rating, and nothing
  requires the capacity to be positive.
\<close>

theorem TransporterProfile_fields:
  "TransporterProfile_fromJson i2d (TransporterProfile_toJson p) = Inr p \<and>
   map fst (TransporterProfile_toJson p) =
     [''vehicle_type'', ''capacity_kg'', ''current_location'', ''availability'',
      ''contact_info'']"
proof
  show "TransporterProfile_fromJson i2d (TransporterProfile_toJson p) = Inr p"
    by (rule TransporterProfile_roundtrip)
  show "map fst (TransporterProfile_toJson p) =
     [''vehicle_type'', ''capacity_kg'', ''current_location'', ''availability'',
      ''contact_info'']"
    by (simp add: TransporterProfile_toJson_def)
qed

text \<open>
  A wire object with capacity 0 and a rating is read without error: the profile has
  a capacity that is not positive, and writing it back gives no \<open>rating\<close> key.
\<close>

theorem TransporterProfile_counterexample:
  "TransporterProfile_fromJson real_of_int
     [(''vehicle_type'', JString ''truck''), (''capacity_kg'', JInt 0),
      (''current_location'', JString ''Harare''), (''availability'', JBool True),
      (''contact_info'', JString ''+263775678901''), (''rating'', JDouble (9 / 2))] =
     Inr \<lparr>vehicleType = ''truck'', capacityKg = 0, currentLocation = ''Harare'',
          availability = True, contactInfo = ''+263775678901''\<rparr> \<and>
   \<not> 0 < capacityKg \<lparr>vehicleType = ''truck'', capacityKg = 0 :: real,
          currentLocation = ''Harare'', availability = True,
          contactInfo = ''+263775678901''\<rparr> \<and>
   ''rating'' \<notin> set (map fst (TransporterProfile_toJson
        \<lparr>vehicleType = ''truck'', capacityKg = 0 :: real, currentLocation = ''Harare'',
         availability = True, contactInfo = ''+263775678901''\<rparr>))"
  by (simp add: TransporterProfile_fromJson_def TransporterProfile_toJson_def lookup_def)

section \<open>Accepting a job\<close>

lemma removeWhere_filter: "removeWhere test xs = filter (\<lambda>x. \<not> test x) xs"
  by (induction xs) simp_all

text \<open>
  C10. After \<open>acceptJob\<close> with a job id, no job of the available-jobs list has that
  id, the list is the old one without the jobs of that id (every other job is kept,
  unchanged and in its place), and accepting the same id again leaves the list as
  it is.
\<close>

theorem acceptJob_removes:
  "(\<forall>job \<in> set (availableJobs (acceptJob i2d jobId s)). \<not> hasId i2d jobId job) \<and>
   availableJobs (acceptJob i2d jobId s) =
     filter (\<lambda>job. \<not> hasId i2d jobId job) (availableJobs s) \<and>
   availableJobs (acceptJob i2d jobId (acceptJob i2d jobId s)) =
     availableJobs (acceptJob i2d jobId s)"
proof -
  have kept: "availableJobs (acceptJob i2d jobId s) =
      filter (\<lambda>job. \<not> hasId i2d jobId job) (availableJobs s)"
    by (simp add: acceptJob_def removeWhere_filter)
  have gone: "\<forall>job \<in> set (availableJobs (acceptJob i2d jobId s)). \<not> hasId i2d jobId job"
    unfolding kept by simp
  have "availableJobs (acceptJob i2d jobId (acceptJob i2d jobId s)) =
      filter (\<lambda>job. \<not> hasId i2d jobId job) (availableJobs (acceptJob i2d jobId s))"
    by (simp add: acceptJob_def removeWhere_filter)
  also have "\<dots> = availableJobs (acceptJob i2d jobId s)"
    unfolding kept by simp
  finally have again: "availableJobs (acceptJob i2d jobId (acceptJob i2d jobId s)) =
      availableJobs (acceptJob i2d jobId s)" .
  from gone kept again show ?thesis by (intro conjI)
qed

theorem acceptJob_removes_witness:
  "availableJobs (acceptJob real_of_int 1
      \<lparr>availableJobs = mockAvailableJobs, isLoading = False, isAvailable = True,
       transporterSnackBars = []\<rparr>) = [mockAvailableJobs ! 1] \<and>
   \<not> hasId real_of_int 1 (mockAvailableJobs ! 1) \<and>
   hasId real_of_int 1 (mockAvailableJobs ! 0)"
  using acceptJob_removes [of real_of_int 1
      "\<lparr>availableJobs = mockAvailableJobs, isLoading = False, isAvailable = True,
       transporterSnackBars = []\<rparr>"]
  by (simp add: mockAvailableJobs_def hasId_def lookup_def)

section \<open>Submitting a request\<close>

lemma matchTransport_calls:
  "fst (matchTransport env request) =
     (case jsonEncode env (JObject request) of None \<Rightarrow> []
      | Some b \<Rightarrow> [(baseUrl @ ''/mcp/match-transport'', b)])"
  by (simp add: matchTransport_def Let_def split: option.split)

lemma matchTransport_Inr:
  "snd (matchTransport env request) = Inr m \<longleftrightarrow>
     (\<exists>b rb. jsonEncode env (JObject request) = Some b \<and>
        post env (baseUrl @ ''/mcp/match-transport'') b = Some (200, rb) \<and>
        jsonDecode env rb = Some (JObject m))"
  by (auto simp: matchTransport_def Let_def split: option.splits sum.splits
      elim: asMap.elims)

lemma matchTransport_result:
  "(\<exists>m. snd (matchTransport env request) = Inr m) \<or>
   (\<exists>e. snd (matchTransport env request) = Inl e)"
  by (cases "snd (matchTransport env request)") auto

lemma buildRequest_keys:
  "buildRequest parse s = Inr request \<Longrightarrow>
     map fst request = [''crop_type'', ''quantity_kg'', ''location'', ''destination_market'']"
  by (auto simp: buildRequest_def split: option.splits)

lemma buildRequest_isLoading [simp]:
  "buildRequest parse (s\<lparr>isLoading := b\<rparr>) = buildRequest parse s"
  by (simp add: buildRequest_def split: option.split)

lemma validate_parses:
  "validate parse s \<Longrightarrow> \<exists>q. parse (quantityController s) = Some q"
  by (auto simp: validate_def quantityValidator_def split: if_splits)

lemma submitTry_calls:
  "fst (submitTry env s) =
     (case buildRequest (tryParse env) s of Inl e \<Rightarrow> []
      | Inr request \<Rightarrow>
          (case jsonEncode env (JObject request) of None \<Rightarrow> []
           | Some b \<Rightarrow> [(baseUrl @ ''/mcp/match-transport'', b)]))"
  by (simp add: submitTry_def matchTransport_calls split_beta split: sum.split)

lemma submitTry_Inr:
  "snd (submitTry env s) = Inr job \<longleftrightarrow>
     (\<exists>request b rb m tj.
        buildRequest (tryParse env) s = Inr request \<and>
        jsonEncode env (JObject request) = Some b \<and>
        post env (baseUrl @ ''/mcp/match-transport'') b = Some (200, rb) \<and>
        jsonDecode env rb = Some (JObject m) \<and>
        lookup m ''success'' = JBool True \<and>
        lookup m ''transport_job'' = JObject tj \<and>
        TransportJob_fromJson (int_toDouble env) tj = Inr job)"
proof (cases "buildRequest (tryParse env) s")
  case (Inl e)
  then show ?thesis by (simp add: submitTry_def)
next
  case (Inr request)
  show ?thesis
  proof (cases "snd (matchTransport env request)")
    case (Inl e)
    have "\<not> (\<exists>b rb m. jsonEncode env (JObject request) = Some b \<and>
        post env (baseUrl @ ''/mcp/match-transport'') b = Some (200, rb) \<and>
        jsonDecode env rb = Some (JObject m))"
      using Inl matchTransport_Inr [of env request] by auto
    with Inl \<open>buildRequest (tryParse env) s = Inr request\<close> show ?thesis
      by (auto simp: submitTry_def split_beta)
  next
    case (Inr m)
    then obtain b rb where b: "jsonEncode env (JObject request) = Some b"
      "post env (baseUrl @ ''/mcp/match-transport'') b = Some (200, rb)"
      "jsonDecode env rb = Some (JObject m)"
      using matchTransport_Inr [of env request m] by auto
    have "snd (submitTry env s) = Inr job \<longleftrightarrow>
        (\<exists>tj. lookup m ''success'' = JBool True \<and> lookup m ''transport_job'' = JObject tj \<and>
          TransportJob_fromJson (int_toDouble env) tj = Inr job)"
      using Inr \<open>buildRequest (tryParse env) s = Inr request\<close>
      by (auto simp: submitTry_def split_beta bindE_def split: sum.splits if_splits
          elim: asBool.elims asMap.elims)
    with b \<open>buildRequest (tryParse env) s = Inr request\<close> show ?thesis by auto
  qed
qed

lemma submitTry_isLoading [simp]: "submitTry env (s\<lparr>isLoading := b\<rparr>) = submitTry env s"
  by (simp add: submitTry_def)

lemma submitRequest_invalid:
  "\<not> validate (tryParse env) s \<Longrightarrow> submitRequest env s = (s, [])"
  by (simp add: submitRequest_def)

lemma submitRequest_Inr:
  "validate (tryParse env) s \<Longrightarrow> snd (submitTry env s) = Inr job \<Longrightarrow>
   submitRequest env s =
     (s\<lparr>currentJob := Some job, farmerSnackBars := farmerSnackBars s @ [RequestSubmitted],
        isLoading := False\<rparr>, fst (submitTry env s))"
  by (simp add: submitRequest_def split_beta)

lemma submitRequest_Inl:
  "validate (tryParse env) s \<Longrightarrow> snd (submitTry env s) = Inl e \<Longrightarrow>
   submitRequest env s =
     (s\<lparr>farmerSnackBars := farmerSnackBars s @ [ErrorSnack e], isLoading := False\<rparr>,
      fst (submitTry env s))"
  by (simp add: submitRequest_def split_beta)

lemma submitRequest_calls:
  "snd (submitRequest env s) = [] \<or>
   (\<exists>request b. buildRequest (tryParse env) s = Inr request \<and>
      jsonEncode env (JObject request) = Some b \<and>
      snd (submitRequest env s) = [(''http://localhost:8000/api/v1/mcp/match-transport'', b)])"
proof (cases "validate (tryParse env) s")
  case False
  then show ?thesis by (simp add: submitRequest_invalid)
next
  case True
  then have "snd (submitRequest env s) = fst (submitTry env s)"
    by (cases "snd (submitTry env s)") (simp_all add: submitRequest_Inr submitRequest_Inl)
  then show ?thesis
    by (auto simp: submitTry_calls baseUrl_def split: sum.splits option.splits)
qed

lemma submitRequest_calls_valid:
  "validate (tryParse env) s \<Longrightarrow> snd (submitRequest env s) = fst (submitTry env s)"
  by (cases "snd (submitTry env s)") (simp_all add: submitRequest_Inr submitRequest_Inl)

lemma validate_builds:
  "validate parse s \<Longrightarrow> \<exists>request. buildRequest parse s = Inr request"
  using validate_parses [of parse s] by (auto simp: buildRequest_def)

text \<open>
  C8. A form that validates builds a request map with exactly the keys \<open>crop_type\<close>,
  \<open>quantity_kg\<close>, \<open>location\<close>, \<open>destination_market\<close>, and once the map is encoded
  \<open>submitRequest\<close> makes one call of \<^verbatim>\<open>client.post\<close>, to \<^verbatim>\<open>/mcp/match-transport\<close>
  under the base URL, with the encoding as its body; there is no other call. When
  the answer has status 200 and decodes to a map whose \<open>success\<close> is true and whose
  \<open>transport_job\<close> is read by \<open>TransportJob.fromJson\<close>, that job becomes the current
  job and success is shown. In every other case the current job is left as it was:
  an error is shown when the form had validated, and nothing at all happens when it
  had not.
\<close>

theorem submitRequest_contract:
  assumes "submitRequest env s = (s', calls)"
  shows "(calls = [] \<or>
      (\<exists>request b. buildRequest (tryParse env) s = Inr request \<and>
         map fst request = [''crop_type'', ''quantity_kg'', ''location'', ''destination_market''] \<and>
         jsonEncode env (JObject request) = Some b \<and>
         calls = [(''http://localhost:8000/api/v1/mcp/match-transport'', b)])) \<and>
    (validate (tryParse env) s \<longrightarrow>
       (\<exists>request. buildRequest (tryParse env) s = Inr request \<and>
          map fst request =
            [''crop_type'', ''quantity_kg'', ''location'', ''destination_market''])) \<and>
    (\<forall>request b.
       validate (tryParse env) s \<and>
       buildRequest (tryParse env) s = Inr request \<and>
       jsonEncode env (JObject request) = Some b \<longrightarrow>
       calls = [(''http://localhost:8000/api/v1/mcp/match-transport'', b)]) \<and>
    (\<forall>b rb m tj job.
       validate (tryParse env) s \<and>
       calls = [(''http://localhost:8000/api/v1/mcp/match-transport'', b)] \<and>
       post env ''http://localhost:8000/api/v1/mcp/match-transport'' b = Some (200, rb) \<and>
       jsonDecode env rb = Some (JObject m) \<and>
       lookup m ''success'' = JBool True \<and>
       lookup m ''transport_job'' = JObject tj \<and>
       TransportJob_fromJson (int_toDouble env) tj = Inr job \<longrightarrow>
       s' = s\<lparr>currentJob := Some job,
              farmerSnackBars := farmerSnackBars s @ [RequestSubmitted],
              isLoading := False\<rparr>) \<and>
    (\<not> (\<exists>b rb m tj job.
       validate (tryParse env) s \<and>
       calls = [(''http://localhost:8000/api/v1/mcp/match-transport'', b)] \<and>
       post env ''http://localhost:8000/api/v1/mcp/match-transport'' b = Some (200, rb) \<and>
       jsonDecode env rb = Some (JObject m) \<and>
       lookup m ''success'' = JBool True \<and>
       lookup m ''transport_job'' = JObject tj \<and>
       TransportJob_fromJson (int_toDouble env) tj = Inr job) \<longrightarrow>
       currentJob s' = currentJob s \<and>
       (if validate (tryParse env) s
        then \<exists>e. s' = s\<lparr>farmerSnackBars := farmerSnackBars s @ [ErrorSnack e],
                         isLoading := False\<rparr>
        else s' = s))"
proof (intro conjI allI)
  show "calls = [] \<or>
      (\<exists>request b. buildRequest (tryParse env) s = Inr request \<and>
         map fst request = [''crop_type'', ''quantity_kg'', ''location'', ''destination_market''] \<and>
         jsonEncode env (JObject request) = Some b \<and>
         calls = [(''http://localhost:8000/api/v1/mcp/match-transport'', b)])"
    using submitRequest_calls [of env s] assms by (auto dest: buildRequest_keys)
next
  show "validate (tryParse env) s \<longrightarrow>
       (\<exists>request. buildRequest (tryParse env) s = Inr request \<and>
          map fst request =
            [''crop_type'', ''quantity_kg'', ''location'', ''destination_market''])"
    using validate_builds [of "tryParse env" s] buildRequest_keys [of "tryParse env" s]
    by blast
next
  fix request b
  {
    assume a: "validate (tryParse env) s \<and>
       buildRequest (tryParse env) s = Inr request \<and>
       jsonEncode env (JObject request) = Some b"
    then have "snd (submitRequest env s) = fst (submitTry env s)"
      by (simp add: submitRequest_calls_valid)
    with a assms have "calls = [(''http://localhost:8000/api/v1/mcp/match-transport'', b)]"
      by (simp add: submitTry_calls baseUrl_def)
  }
  then show "validate (tryParse env) s \<and>
       buildRequest (tryParse env) s = Inr request \<and>
       jsonEncode env (JObject request) = Some b \<longrightarrow>
       calls = [(''http://localhost:8000/api/v1/mcp/match-transport'', b)]"
    by (rule impI)
next
  fix b rb m tj job
  {
  assume a: "validate (tryParse env) s \<and>
       calls = [(''http://localhost:8000/api/v1/mcp/match-transport'', b)] \<and>
       post env ''http://localhost:8000/api/v1/mcp/match-transport'' b = Some (200, rb) \<and>
       jsonDecode env rb = Some (JObject m) \<and>
       lookup m ''success'' = JBool True \<and>
       lookup m ''transport_job'' = JObject tj \<and>
       TransportJob_fromJson (int_toDouble env) tj = Inr job"
  then obtain request where r: "buildRequest (tryParse env) s = Inr request"
    "jsonEncode env (JObject request) = Some b"
    using submitRequest_calls [of env s] assms by auto
  with a have "snd (submitTry env s) = Inr job"
    unfolding submitTry_Inr by (auto simp: baseUrl_def)
  with a assms have "s' = s\<lparr>currentJob := Some job,
              farmerSnackBars := farmerSnackBars s @ [RequestSubmitted],
              isLoading := False\<rparr>"
    by (simp add: submitRequest_Inr)
  }
  then show "validate (tryParse env) s \<and>
       calls = [(''http://localhost:8000/api/v1/mcp/match-transport'', b)] \<and>
       post env ''http://localhost:8000/api/v1/mcp/match-transport'' b = Some (200, rb) \<and>
       jsonDecode env rb = Some (JObject m) \<and>
       lookup m ''success'' = JBool True \<and>
       lookup m ''transport_job'' = JObject tj \<and>
       TransportJob_fromJson (int_toDouble env) tj = Inr job \<longrightarrow>
       s' = s\<lparr>currentJob := Some job,
              farmerSnackBars := farmerSnackBars s @ [RequestSubmitted],
              isLoading := False\<rparr>"
    by (rule impI)
next
  {
  assume n: "\<not> (\<exists>b rb m tj job.
       validate (tryParse env) s \<and>
       calls = [(''http://localhost:8000/api/v1/mcp/match-transport'', b)] \<and>
       post env ''http://localhost:8000/api/v1/mcp/match-transport'' b = Some (200, rb) \<and>
       jsonDecode env rb = Some (JObject m) \<and>
       lookup m ''success'' = JBool True \<and>
       lookup m ''transport_job'' = JObject tj \<and>
       TransportJob_fromJson (int_toDouble env) tj = Inr job)"
  have "currentJob s' = currentJob s \<and>
       (if validate (tryParse env) s
        then \<exists>e. s' = s\<lparr>farmerSnackBars := farmerSnackBars s @ [ErrorSnack e],
                         isLoading := False\<rparr>
        else s' = s)"
  proof (cases "validate (tryParse env) s")
    case False
    with assms show ?thesis by (simp add: submitRequest_invalid)
  next
    case True
    show ?thesis
    proof (cases "snd (submitTry env s)")
      case (Inl e)
      with True assms show ?thesis by (auto simp: submitRequest_Inl)
    next
      case (Inr job)
      then obtain request b rb m tj where
        "buildRequest (tryParse env) s = Inr request"
        "jsonEncode env (JObject request) = Some b"
        "post env (baseUrl @ ''/mcp/match-transport'') b = Some (200, rb)"
        "jsonDecode env rb = Some (JObject m)"
        "lookup m ''success'' = JBool True"
        "lookup m ''transport_job'' = JObject tj"
        "TransportJob_fromJson (int_toDouble env) tj = Inr job"
        unfolding submitTry_Inr by blast
      moreover from this True Inr assms
      have "calls = [(''http://localhost:8000/api/v1/mcp/match-transport'', b)]"
        by (simp add: submitRequest_Inr submitTry_calls baseUrl_def)
      ultimately have False using n True by (auto simp: baseUrl_def)
      then show ?thesis ..
    qed
  qed
  }
  then show "\<not> (\<exists>b rb m tj job.
       validate (tryParse env) s \<and>
       calls = [(''http://localhost:8000/api/v1/mcp/match-transport'', b)] \<and>
       post env ''http://localhost:8000/api/v1/mcp/match-transport'' b = Some (200, rb) \<and>
       jsonDecode env rb = Some (JObject m) \<and>
       lookup m ''success'' = JBool True \<and>
       lookup m ''transport_job'' = JObject tj \<and>
       TransportJob_fromJson (int_toDouble env) tj = Inr job) \<longrightarrow>
       currentJob s' = currentJob s \<and>
       (if validate (tryParse env) s
        then \<exists>e. s' = s\<lparr>farmerSnackBars := farmerSnackBars s @ [ErrorSnack e],
                         isLoading := False\<rparr>
        else s' = s)"
    by (rule impI)
qed

theorem submitRequest_contract_witness:
  "validate tryParse_integral
     \<lparr>selectedCrop = Some ''tomatoes'', cropController = [], quantityController = ''500'',
      locationController = ''Mashonaland East'', marketController = ''Mbare Musika'',
      isLoading = False, currentJob = None, farmerSnackBars = []\<rparr> \<and>
   submitRequest
     \<lparr>tryParse = tryParse_integral, jsonEncode = (\<lambda>v. Some ''{}''),
      jsonDecode = (\<lambda>t. Some (JObject
        [(''success'', JBool True),
         (''transport_job'', JObject
            [(''farmer_request'', JObject
                [(''crop_type'', JString ''tomatoes''), (''quantity_kg'', JDouble 500),
                 (''location'', JString ''Mashonaland East''),
                 (''destination_market'', JString ''Mbare Musika'')]),
             (''status'', JString ''matched'')])])),
      post = (\<lambda>u b. Some (200, ''ok'')), int_toDouble = real_of_int\<rparr>
     \<lparr>selectedCrop = Some ''tomatoes'', cropController = [], quantityController = ''500'',
      locationController = ''Mashonaland East'', marketController = ''Mbare Musika'',
      isLoading = False, currentJob = None, farmerSnackBars = []\<rparr> =
   (\<lparr>selectedCrop = Some ''tomatoes'', cropController = [], quantityController = ''500'',
      locationController = ''Mashonaland East'', marketController = ''Mbare Musika'',
      isLoading = False,
      currentJob = Some
        \<lparr>id_field = None,
         farmerRequest = \<lparr>cropType = ''tomatoes'', quantityKg = 500,
           location = ''Mashonaland East'', destinationMarket = ''Mbare Musika'',
           preferredDeliveryTime = None\<rparr>,
         transporter = None, status = ''matched'', estimatedArrival = None,
         routeOptimization = None, spoilageRisk = None, createdAt = None\<rparr>,
      farmerSnackBars = [RequestSubmitted]\<rparr>,
    [(''http://localhost:8000/api/v1/mcp/match-transport'', ''{}'')])"
proof -
  let ?tj = "[(''farmer_request'', JObject
                [(''crop_type'', JString ''tomatoes''), (''quantity_kg'', JDouble 500),
                 (''location'', JString ''Mashonaland East''),
                 (''destination_market'', JString ''Mbare Musika'')]),
             (''status'', JString ''matched'')] :: real json_map"
  let ?m = "[(''success'', JBool True), (''transport_job'', JObject ?tj)]"
  let ?env = "\<lparr>tryParse = tryParse_integral, jsonEncode = (\<lambda>v. Some ''{}''),
      jsonDecode = (\<lambda>t. Some (JObject ?m)),
      post = (\<lambda>u b. Some (200, ''ok'')), int_toDouble = real_of_int\<rparr>"
  let ?s = "\<lparr>selectedCrop = Some ''tomatoes'', cropController = [],
      quantityController = ''500'',
      locationController = ''Mashonaland East'', marketController = ''Mbare Musika'',
      isLoading = False, currentJob = None, farmerSnackBars = []\<rparr> :: real farmer_screen"
  let ?job = "\<lparr>id_field = None,
         farmerRequest = \<lparr>cropType = ''tomatoes'', quantityKg = 500 :: real,
           location = ''Mashonaland East'', destinationMarket = ''Mbare Musika'',
           preferredDeliveryTime = None\<rparr>,
         transporter = None, status = ''matched'', estimatedArrival = None,
         routeOptimization = None, spoilageRisk = None, createdAt = None\<rparr>"
  have v: "validate tryParse_integral ?s"
    by (simp add: validate_def cropValidator_def quantityValidator_def locationValidator_def
        marketValidator_def tryParse_integral_def digitValue_def)
  let ?request = "[(''crop_type'', JString ''tomatoes''), (''quantity_kg'', JDouble 500),
      (''location'', JString ''Mashonaland East''),
      (''destination_market'', JString ''Mbare Musika'')] :: real json_map"
  have r: "buildRequest (tryParse ?env) ?s = Inr ?request"
    by (simp add: buildRequest_def tryParse_integral_def digitValue_def)
  have j: "TransportJob_fromJson real_of_int ?tj = Inr ?job"
    by (simp add: TransportJob_fromJson_def FarmerRequest_fromJson_def
        transporter_fromJson_def lookup_def)
  have e: "submitRequest ?env ?s = (fst (submitRequest ?env ?s), snd (submitRequest ?env ?s))"
    by simp
  from submitRequest_contract [OF e] have
    "validate (tryParse ?env) ?s \<and>
     buildRequest (tryParse ?env) ?s = Inr ?request \<and>
     jsonEncode ?env (JObject ?request) = Some ''{}'' \<longrightarrow>
     snd (submitRequest ?env ?s) =
       [(''http://localhost:8000/api/v1/mcp/match-transport'', ''{}'')]"
    by blast
  with v r have c: "snd (submitRequest ?env ?s) =
      [(''http://localhost:8000/api/v1/mcp/match-transport'', ''{}'')]"
    by simp
  from submitRequest_contract [OF e] have
    "validate (tryParse ?env) ?s \<and>
     snd (submitRequest ?env ?s) = [(''http://localhost:8000/api/v1/mcp/match-transport'', ''{}'')] \<and>
     post ?env ''http://localhost:8000/api/v1/mcp/match-transport'' ''{}'' = Some (200, ''ok'') \<and>
     jsonDecode ?env ''ok'' = Some (JObject ?m) \<and>
     lookup ?m ''success'' = JBool True \<and>
     lookup ?m ''transport_job'' = JObject ?tj \<and>
     TransportJob_fromJson (int_toDouble ?env) ?tj = Inr ?job \<longrightarrow>
     fst (submitRequest ?env ?s) =
       ?s\<lparr>currentJob := Some ?job,
           farmerSnackBars := farmerSnackBars ?s @ [RequestSubmitted],
           isLoading := False\<rparr>"
    by blast
  with v c j have "fst (submitRequest ?env ?s) =
       ?s\<lparr>currentJob := Some ?job,
           farmerSnackBars := farmerSnackBars ?s @ [RequestSubmitted],
           isLoading := False\<rparr>"
    by (simp add: lookup_def)
  with c v show ?thesis by (simp add: prod_eq_iff)
qed

lemma submitRequest_selectedCrop [simp]:
  "selectedCrop (fst (submitRequest env s)) = selectedCrop s"
  by (cases "snd (submitTry env s)") (simp_all add: submitRequest_def split_beta Let_def)

lemma reachable_crop:
  "reachable s \<Longrightarrow> selectedCrop s = None \<or> (\<exists>c \<in> set cropTypes. selectedCrop s = Some c)"
  by (induction rule: reachable.induct)
    (auto simp: initialState_def cropChanged_def resetForm_def)

text \<open>
  C6 (as the code has it). Whatever the farmer screen posts is the encoding of a
  request whose crop type is one of \<open>tomatoes\<close>, \<open>maize\<close>, \<open>beans\<close>, \<open>potatoes\<close>,
  \<open>cabbage\<close>, \<open>other\<close> and whose quantity is the double the quantity field parses
  to, of any sign; location and destination market are the texts of their fields.
\<close>

theorem submitted_request:
  assumes "reachable s" and "submitRequest env s = (s', calls)" and "calls \<noteq> []"
  shows "\<exists>crop q b. crop \<in> set cropTypes \<and>
     tryParse env (quantityController s) = Some q \<and>
     jsonEncode env (JObject
       [(''crop_type'', JString crop), (''quantity_kg'', JDouble q),
        (''location'', JString (locationController s)),
        (''destination_market'', JString (marketController s))]) = Some b \<and>
     calls = [(''http://localhost:8000/api/v1/mcp/match-transport'', b)]"
proof -
  from assms have v: "validate (tryParse env) s"
    by (auto simp: submitRequest_def split: if_splits)
  then have "selectedCrop s \<noteq> None"
    by (auto simp: validate_def cropValidator_def split: if_splits)
  with reachable_crop [OF assms(1)]
  obtain crop where crop: "crop \<in> set cropTypes" "selectedCrop s = Some crop"
    by auto
  from submitRequest_calls [of env s] assms obtain request b where
    r: "buildRequest (tryParse env) s = Inr request"
      "jsonEncode env (JObject request) = Some b"
      "calls = [(''http://localhost:8000/api/v1/mcp/match-transport'', b)]"
    by auto
  from r(1) obtain q where q: "tryParse env (quantityController s) = Some q"
    "request = [(''crop_type'', ofStringN (selectedCrop s)), (''quantity_kg'', JDouble q),
        (''location'', JString (locationController s)),
        (''destination_market'', JString (marketController s))]"
    by (auto simp: buildRequest_def split: option.splits)
  with r crop show ?thesis by auto
qed

text \<open>
  The form with crop \<open>maize\<close> and quantity \<open>0\<close> is reachable and validates, and the
  request built from it, read as a \<open>FarmerRequest\<close>, has a quantity that is not
  greater than zero.
\<close>

theorem quantity_zero_counterexample:
  "reachable
     \<lparr>selectedCrop = Some ''maize'', cropController = [], quantityController = ''0'',
      locationController = ''Harare'', marketController = ''Mbare Musika'',
      isLoading = False, currentJob = None :: real TransportJob option,
      farmerSnackBars = []\<rparr> \<and>
   validate tryParse_integral
     \<lparr>selectedCrop = Some ''maize'', cropController = [], quantityController = ''0'',
      locationController = ''Harare'', marketController = ''Mbare Musika'',
      isLoading = False, currentJob = None, farmerSnackBars = []\<rparr> \<and>
   bindE (buildRequest tryParse_integral
     \<lparr>selectedCrop = Some ''maize'', cropController = [], quantityController = ''0'',
      locationController = ''Harare'', marketController = ''Mbare Musika'',
      isLoading = False, currentJob = None, farmerSnackBars = []\<rparr>)
     (FarmerRequest_fromJson real_of_int) =
     Inr \<lparr>cropType = ''maize'', quantityKg = 0, location = ''Harare'',
          destinationMarket = ''Mbare Musika'', preferredDeliveryTime = None\<rparr> \<and>
   \<not> 0 < quantityKg \<lparr>cropType = ''maize'', quantityKg = 0 :: real, location = ''Harare'',
          destinationMarket = ''Mbare Musika'', preferredDeliveryTime = None\<rparr>"
proof -
  have "reachable ((cropChanged (Some ''maize'') (initialState :: real farmer_screen))
      \<lparr>quantityController := ''0''\<rparr>\<lparr>locationController := ''Harare''\<rparr>
      \<lparr>marketController := ''Mbare Musika''\<rparr>)"
    by (intro reachable.market reachable.pickup reachable.quantity reachable.crop
        reachable.start) (simp add: cropTypes_def)
  then have "reachable
     \<lparr>selectedCrop = Some ''maize'', cropController = [], quantityController = ''0'',
      locationController = ''Harare'', marketController = ''Mbare Musika'',
      isLoading = False, currentJob = None :: real TransportJob option,
      farmerSnackBars = []\<rparr>"
    by (simp add: cropChanged_def initialState_def)
  then show ?thesis
    by (simp add: validate_def cropValidator_def quantityValidator_def locationValidator_def
        marketValidator_def tryParse_integral_def digitValue_def buildRequest_def
        FarmerRequest_fromJson_def lookup_def)
qed

theorem submitted_request_witness:
  "reachable
     \<lparr>selectedCrop = Some ''maize'', cropController = [], quantityController = ''0'',
      locationController = ''Harare'', marketController = ''Mbare Musika'',
      isLoading = False, currentJob = None :: real TransportJob option,
      farmerSnackBars = []\<rparr> \<and>
   snd (submitRequest
     \<lparr>tryParse = tryParse_integral, jsonEncode = (\<lambda>v. Some ''{}''),
      jsonDecode = (\<lambda>t. None), post = (\<lambda>u b. None), int_toDouble = real_of_int\<rparr>
     \<lparr>selectedCrop = Some ''maize'', cropController = [], quantityController = ''0'',
      locationController = ''Harare'', marketController = ''Mbare Musika'',
      isLoading = False, currentJob = None, farmerSnackBars = []\<rparr>) =
     [(''http://localhost:8000/api/v1/mcp/match-transport'', ''{}'')] \<and>
   ''maize'' \<in> set cropTypes \<and> tryParse_integral ''0'' = Some 0"
proof -
  let ?env = "\<lparr>tryParse = tryParse_integral, jsonEncode = (\<lambda>v. Some ''{}''),
      jsonDecode = (\<lambda>t. None), post = (\<lambda>u b. None), int_toDouble = real_of_int\<rparr>"
  let ?s = "\<lparr>selectedCrop = Some ''maize'', cropController = [], quantityController = ''0'',
      locationController = ''Harare'', marketController = ''Mbare Musika'',
      isLoading = False, currentJob = None :: real TransportJob option,
      farmerSnackBars = []\<rparr>"
  have "reachable ((cropChanged (Some ''maize'') (initialState :: real farmer_screen))
      \<lparr>quantityController := ''0''\<rparr>\<lparr>locationController := ''Harare''\<rparr>
      \<lparr>marketController := ''Mbare Musika''\<rparr>)"
    by (intro reachable.market reachable.pickup reachable.quantity reachable.crop
        reachable.start) (simp add: cropTypes_def)
  then have r: "reachable ?s"
    by (simp add: cropChanged_def initialState_def)
  have c: "snd (submitRequest ?env ?s) =
      [(''http://localhost:8000/api/v1/mcp/match-transport'', ''{}'')]"
    by (simp add: submitRequest_def split_beta submitTry_def buildRequest_def
        matchTransport_def baseUrl_def tryParse_integral_def digitValue_def Let_def
        validate_def cropValidator_def quantityValidator_def locationValidator_def
        marketValidator_def)
  have e: "submitRequest ?env ?s = (fst (submitRequest ?env ?s), snd (submitRequest ?env ?s))"
    by simp
  have n: "snd (submitRequest ?env ?s) \<noteq> []" using c by simp
  from submitted_request [OF r e n] r c show ?thesis
    by (simp add: cropTypes_def tryParse_integral_def digitValue_def)
qed

section \<open>Matching\<close>

lemma highest_mem: "highest score b cs \<in> set (b # cs)"
  by (induction cs arbitrary: b) auto

text \<open>
  C3. Whatever transporter \<open>match\<close> returns is a member of the pool that passed the
  filter: it is available and its capacity is at least the requested quantity, so
  \<open>match\<close> never returns a transporter whose capacity is less than the quantity.
\<close>

theorem match_sufficient_capacity:
  assumes "match score bound pool request = Inr t"
  shows "t \<in> set pool \<and> availability (profile t) \<and>
     capacityKg (profile t) \<ge> quantityKg request \<and>
     \<not> capacityKg (profile t) < quantityKg request"
proof -
  from assms obtain c cs where f: "filter (eligible bound request) pool = c # cs"
    and t: "t = highest (score request) c cs"
    by (auto simp: match_def split: list.splits)
  from t have "t \<in> set (c # cs)" by (simp only: highest_mem)
  with f have "t \<in> set (filter (eligible bound request) pool)" by simp
  then show ?thesis by (auto simp: eligible_def)
qed

theorem match_sufficient_capacity_witness:
  "match (\<lambda>r t. rating t) 60
     [\<lparr>profile = \<lparr>vehicleType = ''pickup'', capacityKg = 400, currentLocation = ''Marondera'',
         availability = True, contactInfo = ''+263777890123''\<rparr>,
       rating = 47 / 10, locationAge = 5\<rparr>,
      \<lparr>profile = \<lparr>vehicleType = ''truck'', capacityKg = 2000, currentLocation = ''Harare'',
         availability = True, contactInfo = ''+263775678901''\<rparr>,
       rating = 45 / 10, locationAge = 5\<rparr>]
     \<lparr>cropType = ''tomatoes'', quantityKg = 500, location = ''Mashonaland East'',
      destinationMarket = ''Mbare Musika'', preferredDeliveryTime = None\<rparr> =
   Inr \<lparr>profile = \<lparr>vehicleType = ''truck'', capacityKg = 2000, currentLocation = ''Harare'',
         availability = True, contactInfo = ''+263775678901''\<rparr>,
       rating = 45 / 10, locationAge = 5\<rparr> \<and>
   (500 :: real) \<le> 2000"
proof -
  have m: "match (\<lambda>r t. rating t) 60
     [\<lparr>profile = \<lparr>vehicleType = ''pickup'', capacityKg = 400, currentLocation = ''Marondera'',
         availability = True, contactInfo = ''+263777890123''\<rparr>,
       rating = 47 / 10, locationAge = 5\<rparr>,
      \<lparr>profile = \<lparr>vehicleType = ''truck'', capacityKg = 2000, currentLocation = ''Harare'',
         availability = True, contactInfo = ''+263775678901''\<rparr>,
       rating = 45 / 10, locationAge = 5\<rparr>]
     \<lparr>cropType = ''tomatoes'', quantityKg = 500, location = ''Mashonaland East'',
      destinationMarket = ''Mbare Musika'', preferredDeliveryTime = None\<rparr> =
   Inr \<lparr>profile = \<lparr>vehicleType = ''truck'', capacityKg = 2000, currentLocation = ''Harare'',
         availability = True, contactInfo = ''+263775678901''\<rparr>,
       rating = 45 / 10, locationAge = 5\<rparr>"
    by (simp add: match_def eligible_def)
  from match_sufficient_capacity [OF m] m show ?thesis by simp
qed

section \<open>Job statuses in the dashboard\<close>











end
